theory Spec2Isabelle
  imports Main "HOL-Library.Word" "HOL-Library.Char_ord" "HOL-Library.List_Lexorder"
    "HOL-Library.Multiset"
begin

section \<open>Types and values as the reflect package shows them\<close>

text \<open>
  The conversion engine of value.go dispatches on \<open>reflect.Kind\<close>. The kinds it names are
  the scalar kinds below and \<open>Slice\<close>, \<open>Map\<close>, \<open>Pointer\<close>; every other kind (struct,
  array, interface, chan, func, complex, uintptr) reaches the \<open>default\<close> branch and is
  \<open>Other\<close> here.
\<close>

datatype scalar =
    KBool
  | KInt | KInt8 | KInt16 | KInt32 | KInt64
  | KUint | KUint8 | KUint16 | KUint32 | KUint64
  | KFloat32 | KFloat64
  | KString

datatype kind = Scalar scalar | Slice | Map | Pointer | Other

text \<open>
  A Go type: a predeclared scalar type, \<open>[]T\<close>, \<open>map[K]V\<close>, \<open>*T\<close>, a defined (named) type
  with its package path, its name and its underlying type, or a type of another kind,
  identified by a name of its own.
\<close>

datatype ty =
    Basic scalar
  | SliceOf ty
  | MapOf ty ty
  | PointerTo ty
  | Named string string ty
  | Opaque string

fun Kind :: "ty \<Rightarrow> kind" where
  "Kind (Basic s) = Scalar s"
| "Kind (SliceOf e) = Slice"
| "Kind (MapOf k e) = Map"
| "Kind (PointerTo e) = Pointer"
| "Kind (Named p n u) = Kind u"
| "Kind (Opaque n) = Other"

text \<open>
  \<open>t.Elem()\<close> and \<open>t.Key()\<close>. The engine calls them on pointer, slice and map types only;
  on the other types (where reflect panics) the model returns the type itself.
\<close>

fun Elem :: "ty \<Rightarrow> ty" where
  "Elem (SliceOf e) = e"
| "Elem (MapOf k e) = e"
| "Elem (PointerTo e) = e"
| "Elem (Named p n u) = Elem u"
| "Elem t = t"

fun Key :: "ty \<Rightarrow> ty" where
  "Key (MapOf k e) = k"
| "Key (Named p n u) = Key u"
| "Key t = t"

fun PkgPath :: "ty \<Rightarrow> string" where
  "PkgPath (Named p n u) = p"
| "PkgPath t = []"

fun scalarName :: "scalar \<Rightarrow> string" where
  "scalarName KBool = ''bool''"
| "scalarName KInt = ''int''"
| "scalarName KInt8 = ''int8''"
| "scalarName KInt16 = ''int16''"
| "scalarName KInt32 = ''int32''"
| "scalarName KInt64 = ''int64''"
| "scalarName KUint = ''uint''"
| "scalarName KUint8 = ''uint8''"
| "scalarName KUint16 = ''uint16''"
| "scalarName KUint32 = ''uint32''"
| "scalarName KUint64 = ''uint64''"
| "scalarName KFloat32 = ''float32''"
| "scalarName KFloat64 = ''float64''"
| "scalarName KString = ''string''"

fun Name :: "ty \<Rightarrow> string" where
  "Name (Named p n u) = n"
| "Name (Basic s) = scalarName s"
| "Name t = []"

text \<open>
  \<open>t.Bits()\<close> of a numeric kind; \<open>intSize\<close> is the width of \<open>int\<close> and \<open>uint\<close> on the
  platform (\<open>strconv.IntSize\<close>). The engine never asks for the bits of a bool or a string.
\<close>

fun Bits :: "nat \<Rightarrow> scalar \<Rightarrow> nat" where
  "Bits intSize KInt = intSize"
| "Bits intSize KInt8 = 8"
| "Bits intSize KInt16 = 16"
| "Bits intSize KInt32 = 32"
| "Bits intSize KInt64 = 64"
| "Bits intSize KUint = intSize"
| "Bits intSize KUint8 = 8"
| "Bits intSize KUint16 = 16"
| "Bits intSize KUint32 = 32"
| "Bits intSize KUint64 = 64"
| "Bits intSize KFloat32 = 32"
| "Bits intSize KFloat64 = 64"
| "Bits intSize KBool = 0"
| "Bits intSize KString = 0"

text \<open>
  Values. A float is kept as the IEEE-754 bit pattern of its float64 image. A slice and a
  map are \<open>None\<close> when nil; a map is an association list with one entry per key. A pointer
  is \<open>None\<close> when nil and otherwise holds the value it points to: the engine never compares
  or shares the pointers it follows, so the cell a pointer refers to is modelled by its
  content. \<open>VOpaque\<close> is the content of a value of another kind, which only a custom
  decoder reads or writes.
\<close>

datatype val =
    VBool bool
  | VInt int
  | VUint nat
  | VFloat "64 word"
  | VString string
  | VSlice "val list option"
  | VMap "(val \<times> val) list option"
  | VPtr "val option"
  | VOpaque string

text \<open>The zero value of a type: what \<open>reflect.New(t).Elem()\<close> and the elements of
  \<open>reflect.MakeSlice\<close> hold.\<close>

fun zeroScalar :: "scalar \<Rightarrow> val" where
  "zeroScalar KBool = VBool False"
| "zeroScalar KString = VString []"
| "zeroScalar KFloat32 = VFloat 0"
| "zeroScalar KFloat64 = VFloat 0"
| "zeroScalar KUint = VUint 0"
| "zeroScalar KUint8 = VUint 0"
| "zeroScalar KUint16 = VUint 0"
| "zeroScalar KUint32 = VUint 0"
| "zeroScalar KUint64 = VUint 0"
| "zeroScalar s = VInt 0"

fun Zero :: "ty \<Rightarrow> val" where
  "Zero (Basic s) = zeroScalar s"
| "Zero (SliceOf e) = VSlice None"
| "Zero (MapOf k e) = VMap None"
| "Zero (PointerTo e) = VPtr None"
| "Zero (Named p n u) = Zero u"
| "Zero (Opaque n) = VOpaque []"

section \<open>Errors and runtime faults\<close>

text \<open>
  A runtime fault is a panic: one raised by a lookup source or a custom decoder, known by
  the text \<open>%v\<close> prints for it, or the one \<open>reflect.Value.Set\<close> raises when the value's
  type (first) is not assignable to the destination's type (second).
\<close>

datatype fault = Fault string | NotAssignable ty ty

text \<open>
  The errors of the package. \<open>External\<close> is an error of strconv, of time or of a custom
  decoder, known by its message. \<open>KeyError\<close>, \<open>ValueError\<close> and \<open>FieldError\<close> wrap their
  cause (\<open>%w\<close>); \<open>Recovered\<close> is \<open>fmt.Errorf("%v", recovered)\<close>; \<open>MultiErr\<close> is the error
  of the xerr module.
\<close>

datatype error =
    External string
  | DeepSlices
  | DeepMaps
  | NotSupported ty
  | KeyError string error
  | ValueError string error
  | ErrEmpty
  | ErrRequired
  | Recovered fault
  | FieldError string error
  | MultiErr string "error list"

text \<open>What a Go function that returns \<open>error\<close> does: it returns nil, returns an error,
  or panics.\<close>

datatype outcome = Done | Fails error | Panics fault

section \<open>The functions of package strings\<close>

text \<open>
  A Go string is its bytes, a \<open>char list\<close> here. \<open>strings.Split(s, sep)\<close> and
  \<open>strings.Cut(s, sep)\<close> are called with the one-byte separators \<open>","\<close> and \<open>"="\<close>.
  \<open>Split\<close> of the empty string is one empty substring.
\<close>

fun Split :: "string \<Rightarrow> char \<Rightarrow> string list" where
  "Split [] sep = [[]]"
| "Split (c # s) sep =
     (if c = sep then [] # Split s sep
      else (case Split s sep of [] \<Rightarrow> [[c]] | w # ws \<Rightarrow> (c # w) # ws))"

definition Cut :: "string \<Rightarrow> char \<Rightarrow> string \<times> string \<times> bool" where
  "Cut s sep =
     (if sep \<in> set s then (takeWhile (\<lambda>c. c \<noteq> sep) s, tl (dropWhile (\<lambda>c. c \<noteq> sep) s), True)
      else (s, [], False))"

text \<open>
  \<open>strings.TrimSpace\<close> removes the leading and the trailing white space of a string, as
  \<open>unicode.IsSpace\<close> defines it, decoding UTF-8. The code points with the White_Space
  property are U+0009 to U+000D, U+0020, U+0085, U+00A0, U+1680, U+2000 to U+200A, U+2028,
  U+2029, U+202F, U+205F and U+3000; a string begins (ends) with such a rune exactly when
  it begins (ends) with the rune's UTF-8 encoding.
\<close>

definition spaces :: "string list" where
  "spaces =
     [[CHR 0x09], [CHR 0x0A], [CHR 0x0B], [CHR 0x0C], [CHR 0x0D], [CHR 0x20],
      [CHR 0xC2, CHR 0x85], [CHR 0xC2, CHR 0xA0], [CHR 0xE1, CHR 0x9A, CHR 0x80],
      [CHR 0xE2, CHR 0x80, CHR 0x80], [CHR 0xE2, CHR 0x80, CHR 0x81],
      [CHR 0xE2, CHR 0x80, CHR 0x82], [CHR 0xE2, CHR 0x80, CHR 0x83],
      [CHR 0xE2, CHR 0x80, CHR 0x84], [CHR 0xE2, CHR 0x80, CHR 0x85],
      [CHR 0xE2, CHR 0x80, CHR 0x86], [CHR 0xE2, CHR 0x80, CHR 0x87],
      [CHR 0xE2, CHR 0x80, CHR 0x88], [CHR 0xE2, CHR 0x80, CHR 0x89],
      [CHR 0xE2, CHR 0x80, CHR 0x8A], [CHR 0xE2, CHR 0x80, CHR 0xA8],
      [CHR 0xE2, CHR 0x80, CHR 0xA9], [CHR 0xE2, CHR 0x80, CHR 0xAF],
      [CHR 0xE2, CHR 0x81, CHR 0x9F], [CHR 0xE3, CHR 0x80, CHR 0x80]]"

text \<open>The number of bytes of the rune among \<open>ps\<close> that \<open>s\<close> begins with, or 0.\<close>

fun leading :: "string list \<Rightarrow> string \<Rightarrow> nat" where
  "leading [] s = 0"
| "leading (p # ps) s = (if p \<noteq> [] \<and> take (length p) s = p then length p else leading ps s)"

function trimLeft :: "string list \<Rightarrow> string \<Rightarrow> string" where
  "trimLeft ps s = (if leading ps s = 0 then s else trimLeft ps (drop (leading ps s) s))"
  by pat_completeness auto

lemma leading_nonempty: "leading ps s \<noteq> 0 \<Longrightarrow> s \<noteq> []"
  by (induction ps) (auto split: if_splits)

termination trimLeft
proof (relation "measure (\<lambda>(ps, s). length s)")
  show "wf (measure (\<lambda>(ps, s). length s))" by simp
next
  fix ps :: "string list" and s :: string
  assume "leading ps s \<noteq> 0"
  then show "((ps, drop (leading ps s) s), (ps, s)) \<in> measure (\<lambda>(ps, s). length s)"
    using leading_nonempty [of ps s] by simp
qed

declare trimLeft.simps [simp del]

definition TrimSpace :: "string \<Rightarrow> string" where
  "TrimSpace s = rev (trimLeft (map rev spaces) (rev (trimLeft spaces s)))"

section \<open>The environment of the engine\<close>

text \<open>
  A custom decoder (\<open>UnmarshalText\<close> or \<open>UnmarshalBinary\<close>, with a pointer receiver): from
  the text and the value its receiver points to, the value it leaves there and what it
  returns.
\<close>

type_synonym unmarshaler = "string \<Rightarrow> val \<Rightarrow> val \<times> outcome"

text \<open>
  What the engine takes from outside the repository: the parsers of strconv and time (the
  base argument of \<open>ParseInt\<close> and \<open>ParseUint\<close> is always 0, the second argument here is
  the bit size), the width of \<open>int\<close>, and for every type whether its values implement
  \<open>encoding.TextUnmarshaler\<close> or \<open>encoding.BinaryUnmarshaler\<close>, and with which method.
\<close>

record env =
  IntSize :: nat
  ParseInt :: "string \<Rightarrow> nat \<Rightarrow> error + int"
  ParseUint :: "string \<Rightarrow> nat \<Rightarrow> error + nat"
  ParseBool :: "string \<Rightarrow> error + bool"
  ParseFloat :: "string \<Rightarrow> nat \<Rightarrow> error + 64 word"
  ParseDuration :: "string \<Rightarrow> error + int"
  TextUnmarshaler :: "ty \<Rightarrow> unmarshaler option"
  BinaryUnmarshaler :: "ty \<Rightarrow> unmarshaler option"

section \<open>The conversion engine (value.go)\<close>

text \<open>
  \<open>if v.IsNil() { v.Set(reflect.New(t.Elem())) }\<close>: the value a pointer of type \<open>t\<close> refers
  to once a nil pointer has been given fresh storage.
\<close>

definition pointee :: "ty \<Rightarrow> val \<Rightarrow> val" where
  "pointee t v = (case v of VPtr (Some x) \<Rightarrow> x | _ \<Rightarrow> Zero (Elem t))"

text \<open>
  The signed integer kinds. \<open>v.SetInt\<close> and \<open>v.SetUint\<close> store their argument at the width
  of the destination.
\<close>

definition parseInt :: "env \<Rightarrow> ty \<Rightarrow> scalar \<Rightarrow> val \<Rightarrow> string \<Rightarrow> val \<times> outcome" where
  "parseInt E t k v text =
     (if k = KInt64 \<and> PkgPath t = ''time'' \<and> Name t = ''Duration'' then
        (case ParseDuration E text of
           Inl err \<Rightarrow> (v, Fails err)
         | Inr d \<Rightarrow> (VInt (signed_take_bit 63 d), Done))
      else
        (case ParseInt E text (Bits (IntSize E) k) of
           Inl err \<Rightarrow> (v, Fails err)
         | Inr x \<Rightarrow> (VInt (signed_take_bit (Bits (IntSize E) k - 1) x), Done)))"

definition parseUint :: "env \<Rightarrow> scalar \<Rightarrow> val \<Rightarrow> string \<Rightarrow> val \<times> outcome" where
  "parseUint E k v text =
     (case ParseUint E text (Bits (IntSize E) k) of
        Inl err \<Rightarrow> (v, Fails err)
      | Inr x \<Rightarrow> (VUint (take_bit (Bits (IntSize E) k) x), Done))"

definition parseBool :: "env \<Rightarrow> val \<Rightarrow> string \<Rightarrow> val \<times> outcome" where
  "parseBool E v text =
     (case ParseBool E text of
        Inl err \<Rightarrow> (v, Fails err)
      | Inr b \<Rightarrow> (VBool b, Done))"

definition parseFloat :: "env \<Rightarrow> scalar \<Rightarrow> val \<Rightarrow> string \<Rightarrow> val \<times> outcome" where
  "parseFloat E k v text =
     (case ParseFloat E text (Bits (IntSize E) k) of
        Inl err \<Rightarrow> (v, Fails err)
      | Inr x \<Rightarrow> (VFloat x, Done))"

text \<open>The scalar cases of the switch on \<open>t.Kind()\<close>.\<close>

fun parseScalar :: "env \<Rightarrow> ty \<Rightarrow> scalar \<Rightarrow> val \<Rightarrow> string \<Rightarrow> val \<times> outcome" where
  "parseScalar E t KString v text = (VString text, Done)"
| "parseScalar E t KInt v text = parseInt E t KInt v text"
| "parseScalar E t KInt8 v text = parseInt E t KInt8 v text"
| "parseScalar E t KInt16 v text = parseInt E t KInt16 v text"
| "parseScalar E t KInt32 v text = parseInt E t KInt32 v text"
| "parseScalar E t KInt64 v text = parseInt E t KInt64 v text"
| "parseScalar E t KUint v text = parseUint E KUint v text"
| "parseScalar E t KUint8 v text = parseUint E KUint8 v text"
| "parseScalar E t KUint16 v text = parseUint E KUint16 v text"
| "parseScalar E t KUint32 v text = parseUint E KUint32 v text"
| "parseScalar E t KUint64 v text = parseUint E KUint64 v text"
| "parseScalar E t KBool v text = parseBool E v text"
| "parseScalar E t KFloat32 v text = parseFloat E KFloat32 v text"
| "parseScalar E t KFloat64 v text = parseFloat E KFloat64 v text"

text \<open>
  The loop over the items of a slice: \<open>conv\<close> converts one substring into a fresh element
  (\<open>parse(slice.Index(i), subtext, false)\<close>); the first item that does not convert ends
  the loop with its outcome.
\<close>

fun parseItems :: "(string \<Rightarrow> val \<times> outcome) \<Rightarrow> string list \<Rightarrow> outcome + val list" where
  "parseItems conv [] = Inr []"
| "parseItems conv (subtext # items) =
     (case conv subtext of
        (x, Done) \<Rightarrow>
          (case parseItems conv items of
             Inl r \<Rightarrow> Inl r
           | Inr xs \<Rightarrow> Inr (x # xs))
      | (x, r) \<Rightarrow> Inl r)"

text \<open>
  Equality of map keys, as \<open>SetMapIndex\<close> finds an entry: a NaN equals no float, the two
  zeros are equal, and a pointer the engine has just allocated equals no other key.
\<close>

definition isNaN :: "64 word \<Rightarrow> bool" where
  "isNaN w = (take_bit 11 (drop_bit 52 w) = 2047 \<and> take_bit 52 w \<noteq> 0)"

definition floatEq :: "64 word \<Rightarrow> 64 word \<Rightarrow> bool" where
  "floatEq a b =
     (\<not> isNaN a \<and> \<not> isNaN b \<and> (a = b \<or> (take_bit 63 a = 0 \<and> take_bit 63 b = 0)))"

definition keyEq :: "val \<Rightarrow> val \<Rightarrow> bool" where
  "keyEq a b =
     (case a of
        VFloat x \<Rightarrow> (case b of VFloat y \<Rightarrow> floatEq x y | _ \<Rightarrow> False)
      | VPtr x \<Rightarrow> False
      | _ \<Rightarrow> a = b)"

fun SetMapIndex :: "(val \<times> val) list \<Rightarrow> val \<Rightarrow> val \<Rightarrow> (val \<times> val) list" where
  "SetMapIndex [] k v = [(k, v)]"
| "SetMapIndex ((k', v') # m) k v =
     (if keyEq k' k then (k, v) # m else (k', v') # SetMapIndex m k v)"


text \<open>
  The loop over the entries of a map: \<open>convKey\<close> and \<open>convValue\<close> convert a substring into
  a fresh key and a fresh value, \<open>target\<close> is the map built so far.
\<close>

fun parseEntries ::
  "(string \<Rightarrow> val \<times> outcome) \<Rightarrow> (string \<Rightarrow> val \<times> outcome) \<Rightarrow> string list \<Rightarrow>
   (val \<times> val) list \<Rightarrow> outcome + (val \<times> val) list" where
  "parseEntries convKey convValue [] target = Inr target"
| "parseEntries convKey convValue (elem # elems) target =
     (case Cut elem (CHR ''='') of
        (key, value, False) \<Rightarrow> parseEntries convKey convValue elems target
      | (key, value, True) \<Rightarrow>
          (case convKey key of
             (k, Fails err) \<Rightarrow> Inl (Fails (KeyError key err))
           | (k, Panics p) \<Rightarrow> Inl (Panics p)
           | (k, Done) \<Rightarrow>
               (case convValue value of
                  (v, Fails err) \<Rightarrow> Inl (Fails (ValueError key err))
                | (v, Panics p) \<Rightarrow> Inl (Panics p)
                | (v, Done) \<Rightarrow>
                    parseEntries convKey convValue elems (SetMapIndex target k v))))"

text \<open>
  \<open>parse(v, text, topLevel)\<close>: \<open>t\<close> is the type of \<open>v\<close>, the result is the value the location
  holds afterwards and what the call returns. One round of the loop
  \<open>for t.Kind() == reflect.Pointer\<close> is the \<open>Pointer\<close> case: the pointer is given storage
  if nil, a custom decoder of the pointer's type ends the call, and otherwise the call
  goes on at the value pointed to. \<open>v.Set(reflect.ValueOf([]byte(text)))\<close> panics unless
  \<open>[]byte\<close> is assignable to the slice type, that is unless the element type is \<open>uint8\<close>
  itself.
\<close>

function parse :: "env \<Rightarrow> ty \<Rightarrow> val \<Rightarrow> string \<Rightarrow> bool \<Rightarrow> val \<times> outcome" where
  "parse E t v text topLevel =
     (case Kind t of
        Pointer \<Rightarrow>
          (case TextUnmarshaler E t of
             Some unmarshaler \<Rightarrow>
               (case unmarshaler text (pointee t v) of (x, r) \<Rightarrow> (VPtr (Some x), r))
           | None \<Rightarrow>
               (case BinaryUnmarshaler E t of
                  Some unmarshaler \<Rightarrow>
                    (case unmarshaler text (pointee t v) of (x, r) \<Rightarrow> (VPtr (Some x), r))
                | None \<Rightarrow>
                    (case parse E (Elem t) (pointee t v) text topLevel of
                       (x, r) \<Rightarrow> (VPtr (Some x), r))))
      | Scalar k \<Rightarrow> parseScalar E t k v text
      | Slice \<Rightarrow>
          if \<not> topLevel then (v, Fails DeepSlices)
          else if Kind (Elem t) = Scalar KUint8 then
            (if Elem t = Basic KUint8 then (VSlice (Some (map (\<lambda>c. VUint (of_char c)) text)), Done)
             else (v, Panics (NotAssignable (SliceOf (Basic KUint8)) t)))
          else if TrimSpace text = [] then (VSlice (Some []), Done)
          else
            (case parseItems (\<lambda>subtext. parse E (Elem t) (Zero (Elem t)) subtext False)
                    (Split text (CHR '','')) of
               Inl r \<Rightarrow> (v, r)
             | Inr slice' \<Rightarrow> (VSlice (Some slice'), Done))
      | Map \<Rightarrow>
          if \<not> topLevel then (v, Fails DeepMaps)
          else if TrimSpace text = [] then (v, Done)
          else
            (case parseEntries (\<lambda>key. parse E (Key t) (Zero (Key t)) key False)
                    (\<lambda>value. parse E (Elem t) (Zero (Elem t)) value False)
                    (Split (TrimSpace text) (CHR '','')) [] of
               Inl r \<Rightarrow> (v, r)
             | Inr target \<Rightarrow> (VMap (Some target), Done))
      | Other \<Rightarrow> (v, Fails (NotSupported t)))"
  by pat_completeness auto

lemma size_Elem: "Kind t \<in> {Pointer, Slice, Map} \<Longrightarrow> size (Elem t) < size t"
  by (induction t) auto

lemma size_Key: "Kind t = Map \<Longrightarrow> size (Key t) < size t"
  by (induction t) auto

termination parse
  by (relation "measure (\<lambda>(E, t, v, text, topLevel). size t)")
     (auto simp: size_Elem size_Key)

declare parse.simps [simp del]

section \<open>Error messages\<close>

text \<open>
  \<open>err.Error()\<close>. \<open>typeString\<close> is \<open>Type.String()\<close> of package reflect, which \<open>%s\<close> prints
  for a type. The message of a \<open>MultiErr\<close> is the one of the xerr module, which is not
  part of the repository: a single error follows the heading on the same line, as the
  test \<open>TestInvalidDestination\<close> expects, and several errors follow it one on a line, as
  the tests \<open>TestOptions\<close>, \<open>TestMapParsingErrors\<close> and \<open>TestParsePanicRecovery\<close> expect.
\<close>

fun faultString :: "(ty \<Rightarrow> string) \<Rightarrow> fault \<Rightarrow> string" where
  "faultString typeString (Fault m) = m"
| "faultString typeString (NotAssignable a b) =
     ''reflect.Set: value of type '' @ typeString a @ '' is not assignable to type '' @ typeString b"

fun Error :: "(ty \<Rightarrow> string) \<Rightarrow> error \<Rightarrow> string" where
  "Error typeString (External m) = m"
| "Error typeString DeepSlices = ''cannot support deep slices''"
| "Error typeString DeepMaps = ''cannot support deep maps''"
| "Error typeString (NotSupported t) = ''destination type not supported: '' @ typeString t"
| "Error typeString (KeyError key err) =
     ''failed to parse key: '' @ key @ '': '' @ Error typeString err"
| "Error typeString (ValueError key err) =
     ''failed to parse value at key: '' @ key @ '': '' @ Error typeString err"
| "Error typeString ErrEmpty = ''field is declared but empty: cannot be empty''"
| "Error typeString ErrRequired = ''field is required''"
| "Error typeString (Recovered p) = faultString typeString p"
| "Error typeString (FieldError name err) = name @ '': '' @ Error typeString err"
| "Error typeString (MultiErr msg errs) =
     (case errs of
        [err] \<Rightarrow> msg @ '': '' @ Error typeString err
      | _ \<Rightarrow> msg @ '':'' @ concat (map (\<lambda>err. CHR 0x0A # ''  - '' @ Error typeString err) errs))"

section \<open>Lookup sources (cfg.go)\<close>

text \<open>
  A call of a function that may panic returns or raises a fault. A \<open>LookupFunc\<close> is
  \<open>func(string) (string, bool)\<close>; the sources of the repository only read (the
  environment, the arguments, a file), so a source is a function of the name.
\<close>

datatype 'a call = Returns 'a | Raises fault

type_synonym LookupFunc = "string \<Rightarrow> (string \<times> bool) call"

text \<open>The loop of \<open>joinLookupFuncs\<close>; \<open>res\<close> is the pair of the named results
  \<open>value, ok\<close>.\<close>

fun joinLoop :: "LookupFunc list \<Rightarrow> string \<Rightarrow> string \<times> bool \<Rightarrow> (string \<times> bool) call" where
  "joinLoop [] key res = Returns res"
| "joinLoop (fn # fns) key res =
     (case fn key of
        Raises p \<Rightarrow> Raises p
      | Returns (value, ok) \<Rightarrow> if ok then Returns (value, ok) else joinLoop fns key (value, ok))"

definition joinLookupFuncs :: "LookupFunc list \<Rightarrow> LookupFunc" where
  "joinLookupFuncs fns = (\<lambda>key. joinLoop fns key ([], False))"

section \<open>Options (the option functions of the package)\<close>

record options =
  required :: bool
  nonEmpty :: bool
  skipEmpty :: bool
  fallback :: "val option"

type_synonym Option = "options \<Rightarrow> options"

definition Required :: "bool \<Rightarrow> Option" where
  "Required value = (\<lambda>opt. opt\<lparr>required := value\<rparr>)"

definition NonEmpty :: "bool \<Rightarrow> Option" where
  "NonEmpty value = (\<lambda>opt. opt\<lparr>nonEmpty := value\<rparr>)"

definition SkipEmpty :: "bool \<Rightarrow> Option" where
  "SkipEmpty value = (\<lambda>opt. opt\<lparr>skipEmpty := value\<rparr>)"

definition Default :: "val \<Rightarrow> Option" where
  "Default value = (\<lambda>opt. opt\<lparr>fallback := Some value\<rparr>)"

text \<open>\<open>var options options\<close>: the zero value.\<close>

definition zeroOptions :: options where
  "zeroOptions = \<lparr>required = False, nonEmpty = False, skipEmpty = False, fallback = None\<rparr>"

section \<open>The registry and the parse pass (cfg.go)\<close>

text \<open>
  The caller's variables live in a store, addressed by numbers. A \<open>genericValue[T]\<close> holds
  the address \<open>dst\<close> of a variable and stands for its type \<open>T\<close>.
\<close>

type_synonym store = "nat \<Rightarrow> val"

record genericValue =
  dst :: nat
  dstType :: ty

record field =
  fvalue :: genericValue
  opts :: options

record Parser =
  fields' :: "string \<rightharpoonup> field"
  lookup :: LookupFunc

text \<open>\<open>*v.dst = value.(T)\<close>; the option \<open>Default[T]\<close> only stores values of type \<open>T\<close>.\<close>

definition Set_value :: "genericValue \<Rightarrow> val \<Rightarrow> store \<Rightarrow> store" where
  "Set_value g value s = s(dst g := value)"

text \<open>\<open>parse(reflect.ValueOf(v.dst), text, true)\<close>: the engine starts at the pointer to the
  variable.\<close>

definition Parse_value :: "env \<Rightarrow> genericValue \<Rightarrow> string \<Rightarrow> store \<Rightarrow> store \<times> outcome" where
  "Parse_value E g text s =
     (case parse E (PointerTo (dstType g)) (VPtr (Some (s (dst g)))) text True of
        (x, r) \<Rightarrow> (s(dst g := pointee (PointerTo (dstType g)) x), r))"

text \<open>\<open>nonNil\<close> is the loop of \<open>MakeParser\<close> that drops the nil functions; \<open>LookupEnv\<close> is
  \<open>os.LookupEnv\<close>.\<close>

fun nonNil :: "LookupFunc option list \<Rightarrow> LookupFunc list" where
  "nonNil [] = []"
| "nonNil (None # funcs) = nonNil funcs"
| "nonNil (Some fn # funcs) = fn # nonNil funcs"

definition MakeParser :: "LookupFunc \<Rightarrow> LookupFunc option list \<Rightarrow> Parser" where
  "MakeParser LookupEnv funcs =
     (let lookupFuncs = nonNil funcs
      in \<lparr>fields' = Map.empty,
          lookup = (if length lookupFuncs > 0 then joinLookupFuncs lookupFuncs else LookupEnv)\<rparr>)"

text \<open>\<open>Var\<close> applies the options in order to the zero options and stores the field under
  its name, replacing an earlier field of that name.\<close>

definition Var :: "Parser \<Rightarrow> genericValue \<Rightarrow> string \<Rightarrow> Option list \<Rightarrow> Parser" where
  "Var parser p name opts' =
     parser\<lparr>fields' := (fields' parser)(name \<mapsto>
       \<lparr>fvalue = p, opts = fold (\<lambda>apply opt. apply opt) opts' zeroOptions\<rparr>)\<rparr>"

text \<open>The body of the function literal that \<open>Parse\<close> runs for one field, before its
  deferred \<open>recover\<close>.\<close>

definition parseField :: "env \<Rightarrow> Parser \<Rightarrow> string \<Rightarrow> field \<Rightarrow> store \<Rightarrow> store \<times> outcome" where
  "parseField E parser name field s =
     (case lookup parser name of
        Raises p \<Rightarrow> (s, Panics p)
      | Returns (text, ok) \<Rightarrow>
          if ok \<and> text = [] \<and> nonEmpty (opts field) then (s, Fails ErrEmpty)
          else if ok \<and> text = [] \<and> skipEmpty (opts field) then (s, Done)
          else if \<not> ok then
            (if required (opts field) then (s, Fails ErrRequired)
             else
               (case fallback (opts field) of
                  Some value \<Rightarrow> (Set_value (fvalue field) value s, Done)
                | None \<Rightarrow> (s, Done)))
          else Parse_value E (fvalue field) text s)"

text \<open>The deferred function: a recovered fault becomes the error of the call.\<close>

fun recovered :: "store \<times> outcome \<Rightarrow> store \<times> error option" where
  "recovered (s, Done) = (s, None)"
| "recovered (s, Fails err) = (s, Some err)"
| "recovered (s, Panics p) = (s, Some (Recovered p))"

text \<open>
  The loop \<open>for name, field := range parser.fields\<close>. Go visits the keys of a map once each
  in an order it does not specify: \<open>names\<close> is the order of the visit. \<open>errs\<close> collects
  the errors wrapped with the name of their field.
\<close>

fun parseFields ::
  "env \<Rightarrow> Parser \<Rightarrow> string list \<Rightarrow> store \<Rightarrow> error list \<Rightarrow> store \<times> error list" where
  "parseFields E parser [] s errs = (s, errs)"
| "parseFields E parser (name # names) s errs =
     (case fields' parser name of
        None \<Rightarrow> parseFields E parser names s errs
      | Some field \<Rightarrow>
          (case recovered (parseField E parser name field s) of
             (s', None) \<Rightarrow> parseFields E parser names s' errs
           | (s', Some err) \<Rightarrow> parseFields E parser names s' (errs @ [FieldError name err])))"




section \<open>Notions used to state the properties\<close>

text \<open>
  The type at which the loop \<open>for t.Kind() == reflect.Pointer\<close> leaves \<open>parse\<close>, or \<open>None\<close>
  when a custom decoder ends the call inside the loop.
\<close>

function reached :: "env \<Rightarrow> ty \<Rightarrow> ty option" where
  "reached E t =
     (if Kind t = Pointer then
        (if TextUnmarshaler E t = None \<and> BinaryUnmarshaler E t = None then reached E (Elem t)
         else None)
      else Some t)"
  by pat_completeness auto
termination
  by (relation "measure (\<lambda>(E, t). size t)") (auto simp: size_Elem)

declare reached.simps [simp del]

text \<open>
  What that loop alone leaves at a location of type \<open>t\<close> holding \<open>v\<close>: every nil pointer
  it follows refers to a fresh zero value, and nothing else has changed.
\<close>

function allocated :: "env \<Rightarrow> ty \<Rightarrow> val \<Rightarrow> val" where
  "allocated E t v =
     (if Kind t = Pointer then
        (if TextUnmarshaler E t = None \<and> BinaryUnmarshaler E t = None
         then VPtr (Some (allocated E (Elem t) (pointee t v)))
         else VPtr (Some (pointee t v)))
      else v)"
  by pat_completeness auto
termination
  by (relation "measure (\<lambda>(E, t, v). size t)") (auto simp: size_Elem)

declare allocated.simps [simp del]

section \<open>An environment and sources for the examples\<close>

text \<open>
  The examples run the engine with parsers that read the boolean literals of
  \<open>strconv.ParseBool\<close> and plain decimal integers (an optional sign, digits, no leading
  zero), with the results and the error messages strconv gives for those texts; every
  other text is a syntax error for them, and they read no float and no duration. No type
  has a custom decoder. The theorems below hold for every environment, not only for this
  one.
\<close>

definition syntaxError :: "string \<Rightarrow> string \<Rightarrow> error" where
  "syntaxError fn str =
     External (''strconv.'' @ fn @ '': parsing '' @ [CHR 0x22] @ str @ [CHR 0x22] @ '': invalid syntax'')"

definition rangeError :: "string \<Rightarrow> string \<Rightarrow> error" where
  "rangeError fn str =
     External (''strconv.'' @ fn @ '': parsing '' @ [CHR 0x22] @ str @ [CHR 0x22] @ '': value out of range'')"

definition decimal :: "string \<Rightarrow> nat option" where
  "decimal str =
     (if str \<noteq> [] \<and> list_all (\<lambda>c. CHR ''0'' \<le> c \<and> c \<le> CHR ''9'') str
         \<and> (length str = 1 \<or> hd str \<noteq> CHR ''0'')
      then Some (foldl (\<lambda>n c. 10 * n + (of_char c - 48)) 0 str)
      else None)"

definition decimalParseUint :: "string \<Rightarrow> nat \<Rightarrow> error + nat" where
  "decimalParseUint str bits =
     (case decimal str of
        None \<Rightarrow> Inl (syntaxError ''ParseUint'' str)
      | Some n \<Rightarrow> if n < 2 ^ bits then Inr n else Inl (rangeError ''ParseUint'' str))"

definition decimalParseInt :: "string \<Rightarrow> nat \<Rightarrow> error + int" where
  "decimalParseInt str bits =
     (case decimal (if str \<noteq> [] \<and> hd str \<in> {CHR ''+'', CHR ''-''} then tl str else str) of
        None \<Rightarrow> Inl (syntaxError ''ParseInt'' str)
      | Some n \<Rightarrow>
          if str \<noteq> [] \<and> hd str = CHR ''-''
          then (if n \<le> 2 ^ (bits - 1) then Inr (- int n) else Inl (rangeError ''ParseInt'' str))
          else (if n < 2 ^ (bits - 1) then Inr (int n) else Inl (rangeError ''ParseInt'' str)))"

definition literalParseBool :: "string \<Rightarrow> error + bool" where
  "literalParseBool str =
     (if str \<in> set [''1'', ''t'', ''T'', ''true'', ''TRUE'', ''True''] then Inr True
      else if str \<in> set [''0'', ''f'', ''F'', ''false'', ''FALSE'', ''False''] then Inr False
      else Inl (syntaxError ''ParseBool'' str))"

definition exampleEnv :: env where
  "exampleEnv =
     \<lparr>IntSize = 64,
      ParseInt = decimalParseInt,
      ParseUint = decimalParseUint,
      ParseBool = literalParseBool,
      ParseFloat = (\<lambda>str bits. Inl (syntaxError ''ParseFloat'' str)),
      ParseDuration = (\<lambda>str. Inl (External (''time: invalid duration '' @ [CHR 0x22] @ str @ [CHR 0x22]))),
      TextUnmarshaler = (\<lambda>t. None),
      BinaryUnmarshaler = (\<lambda>t. None)\<rparr>"

text \<open>The printed form of the types of the examples.\<close>

fun exampleTypeString :: "ty \<Rightarrow> string" where
  "exampleTypeString (Basic s) = scalarName s"
| "exampleTypeString (SliceOf e) = ''[]'' @ exampleTypeString e"
| "exampleTypeString (MapOf k e) = ''map['' @ exampleTypeString k @ '']'' @ exampleTypeString e"
| "exampleTypeString (PointerTo e) = ''*'' @ exampleTypeString e"
| "exampleTypeString (Named p n u) = p @ ''.'' @ n"
| "exampleTypeString (Opaque n) = n"

text \<open>A source that reads a table, as the sources of the tests do, and one that panics
  on some names.\<close>

definition tableLookup :: "(string \<times> string) list \<Rightarrow> LookupFunc" where
  "tableLookup table = (\<lambda>name.
     case map_of table name of Some value \<Rightarrow> Returns (value, True) | None \<Rightarrow> Returns ([], False))"

definition constLookup :: "string \<Rightarrow> LookupFunc" where
  "constLookup value = (\<lambda>name. Returns (value, True))"

definition faultyLookup :: "string list \<Rightarrow> string \<Rightarrow> LookupFunc \<Rightarrow> LookupFunc" where
  "faultyLookup bad message fn = (\<lambda>name. if name \<in> set bad then Raises (Fault message) else fn name)"

definition emptyStore :: store where
  "emptyStore = (\<lambda>a. VPtr None)"

text \<open>Destinations and stores of the examples.\<close>

definition sliceStore :: store where
  "sliceStore = emptyStore(0 := VSlice (Some [VInt 7]))"

definition mapStore :: store where
  "mapStore = emptyStore(0 := VMap (Some [(VString ''x'', VInt 1)]))"

text \<open>
  An environment with custom decoders, for the examples: the values of type \<open>*Both\<close>
  implement both interfaces, those of type \<open>*Binary\<close> only \<open>encoding.BinaryUnmarshaler\<close>.
  \<open>keepText\<close> stores the text it is given, \<open>rejectText\<close> returns an error.
\<close>

definition keepText :: "string \<Rightarrow> unmarshaler" where
  "keepText tag = (\<lambda>text p. (VOpaque (tag @ text), Done))"

definition rejectText :: unmarshaler where
  "rejectText = (\<lambda>text p. (p, Fails (External ''rejected'')))"

definition decoderEnv :: env where
  "decoderEnv = exampleEnv
     \<lparr>TextUnmarshaler := (\<lambda>t.
        if t = PointerTo (Named ''main'' ''Both'' (Opaque ''struct {}''))
        then Some (keepText ''text:'') else None),
      BinaryUnmarshaler := (\<lambda>t.
        if t = PointerTo (Named ''main'' ''Both'' (Opaque ''struct {}'')) then Some rejectText
        else if t = PointerTo (Named ''main'' ''Binary'' (SliceOf (Basic KString)))
        then Some (keepText ''binary:'') else None)\<rparr>"

text \<open>
  The registries of the examples. \<open>optionsParser\<close> follows the test \<open>TestOptions\<close>, with
  one more field that has a default; \<open>faultParser\<close> follows \<open>TestParsePanicRecovery\<close>, its
  source returns the name itself as the text and panics on the name \<open>bad\<close>;
  \<open>invalidParser\<close> follows \<open>TestInvalidDestination\<close>. The process environment of the
  examples is empty.
\<close>

definition noEnv :: LookupFunc where
  "noEnv = tableLookup []"

definition echoLookup :: LookupFunc where
  "echoLookup = (\<lambda>name. Returns (name, True))"

definition optionsParser :: Parser where
  "optionsParser =
     Var (Var (Var (Var (Var
       (MakeParser noEnv [Some (tableLookup [(''nonEmpty'', []), (''skipEmpty'', [])])])
       \<lparr>dst = 0, dstType = Basic KString\<rparr> ''required'' [Required True])
       \<lparr>dst = 1, dstType = Basic KString\<rparr> ''nonEmpty'' [NonEmpty True])
       \<lparr>dst = 2, dstType = Basic KString\<rparr> ''emptynonpresent'' [NonEmpty True])
       \<lparr>dst = 3, dstType = Basic KInt\<rparr> ''skipEmpty'' [SkipEmpty True])
       \<lparr>dst = 4, dstType = Basic KInt\<rparr> ''port'' [Default (VInt 8080)]"

definition faultParser :: Parser where
  "faultParser =
     Var (Var
       (MakeParser noEnv [Some (faultyLookup [''bad''] ''lookup key not capitalized'' echoLookup)])
       \<lparr>dst = 0, dstType = Basic KString\<rparr> ''GOOD'' [])
       \<lparr>dst = 1, dstType = Basic KString\<rparr> ''bad'' []"


section \<open>The engine, case by case\<close>

lemma parse_Pointer:
  "Kind t = Pointer \<Longrightarrow> parse E t v text topLevel =
     (case TextUnmarshaler E t of
        Some unmarshaler \<Rightarrow>
          (case unmarshaler text (pointee t v) of (x, r) \<Rightarrow> (VPtr (Some x), r))
      | None \<Rightarrow>
          (case BinaryUnmarshaler E t of
             Some unmarshaler \<Rightarrow>
               (case unmarshaler text (pointee t v) of (x, r) \<Rightarrow> (VPtr (Some x), r))
           | None \<Rightarrow>
               (case parse E (Elem t) (pointee t v) text topLevel of
                  (x, r) \<Rightarrow> (VPtr (Some x), r))))"
  by (subst parse.simps) simp

lemma parse_Scalar:
  "Kind t = Scalar k \<Longrightarrow> parse E t v text topLevel = parseScalar E t k v text"
  by (subst parse.simps) simp

lemma parse_Other:
  "Kind t = Other \<Longrightarrow> parse E t v text topLevel = (v, Fails (NotSupported t))"
  by (subst parse.simps) simp

lemma parse_Slice_nested:
  "Kind t = Slice \<Longrightarrow> parse E t v text False = (v, Fails DeepSlices)"
  by (subst parse.simps) simp

lemma parse_Map_nested:
  "Kind t = Map \<Longrightarrow> parse E t v text False = (v, Fails DeepMaps)"
  by (subst parse.simps) simp

lemma parse_Slice:
  "Kind t = Slice \<Longrightarrow> parse E t v text True =
     (if Kind (Elem t) = Scalar KUint8 then
        (if Elem t = Basic KUint8 then (VSlice (Some (map (\<lambda>c. VUint (of_char c)) text)), Done)
         else (v, Panics (NotAssignable (SliceOf (Basic KUint8)) t)))
      else if TrimSpace text = [] then (VSlice (Some []), Done)
      else
        (case parseItems (\<lambda>subtext. parse E (Elem t) (Zero (Elem t)) subtext False)
                (Split text (CHR '','')) of
           Inl r \<Rightarrow> (v, r)
         | Inr slice' \<Rightarrow> (VSlice (Some slice'), Done)))"
  by (subst parse.simps) simp

lemma parse_Map:
  "Kind t = Map \<Longrightarrow> parse E t v text True =
     (if TrimSpace text = [] then (v, Done)
      else
        (case parseEntries (\<lambda>key. parse E (Key t) (Zero (Key t)) key False)
                (\<lambda>value. parse E (Elem t) (Zero (Elem t)) value False)
                (Split (TrimSpace text) (CHR '','')) [] of
           Inl r \<Rightarrow> (v, r)
         | Inr target \<Rightarrow> (VMap (Some target), Done)))"
  by (subst parse.simps) simp

lemmas parse_cases =
  parse_Pointer parse_Scalar parse_Other parse_Slice_nested parse_Map_nested parse_Slice parse_Map

lemma trimLeft_stop: "leading ps s = 0 \<Longrightarrow> trimLeft ps s = s"
  by (subst trimLeft.simps) simp

lemma trimLeft_step:
  "leading ps s \<noteq> 0 \<Longrightarrow> trimLeft ps s = trimLeft ps (drop (leading ps s) s)"
  by (subst trimLeft.simps) simp

lemma leading_Nil: "leading ps [] = 0"
  by (induction ps) auto

lemma TrimSpace_Nil: "TrimSpace [] = []"
  by (simp add: TrimSpace_def trimLeft_stop leading_Nil)

lemmas TrimSpace_eval = TrimSpace_def trimLeft_stop trimLeft_step spaces_def

lemmas example_eval =
  exampleEnv_def decimalParseInt_def decimalParseUint_def decimal_def literalParseBool_def
  parseInt_def parseUint_def parseBool_def parseFloat_def pointee_def Cut_def keyEq_def

lemma parseScalar_keeps: "parseScalar E t k v text = (x, r) \<Longrightarrow> r \<noteq> Done \<Longrightarrow> x = v"
  by (cases k)
     (auto simp: parseInt_def parseUint_def parseBool_def parseFloat_def
           split: sum.splits if_splits)

lemma parse_composite_keeps:
  assumes "Kind t \<noteq> Pointer" and "parse E t v text topLevel = (x, r)" and "r \<noteq> Done"
  shows "x = v"
proof (cases "Kind t")
  case (Scalar k)
  with assms(2) have "parseScalar E t k v text = (x, r)" by (simp add: parse_Scalar)
  from parseScalar_keeps [OF this assms(3)] show ?thesis .
next
  case Slice
  with assms show ?thesis
    by (cases topLevel)
       (auto simp: parse_Slice parse_Slice_nested split: if_splits sum.splits)
next
  case Map
  with assms show ?thesis
    by (cases topLevel)
       (auto simp: parse_Map parse_Map_nested split: if_splits sum.splits)
next
  case Pointer
  with assms show ?thesis by simp
next
  case Other
  with assms show ?thesis by (simp add: parse_Other)
qed

lemma parse_failure_allocated:
  "reached E t \<noteq> None \<Longrightarrow> parse E t v text topLevel = (x, r) \<Longrightarrow> r \<noteq> Done \<Longrightarrow>
   x = allocated E t v"
proof (induction t arbitrary: v x rule: measure_induct_rule [where f = size])
  case (less t)
  show ?case
  proof (cases "Kind t = Pointer")
    case False
    from parse_composite_keeps [OF False less.prems(2) less.prems(3)] False
    show ?thesis
      by (simp add: allocated.simps [of E t])
  next
    case True
    from less.prems(1) True
    have nodec: "TextUnmarshaler E t = None" "BinaryUnmarshaler E t = None"
      and sub: "reached E (Elem t) \<noteq> None"
      by (auto simp: reached.simps [of E t] split: if_splits)
    obtain y r' where sub_parse: "parse E (Elem t) (pointee t v) text topLevel = (y, r')"
      by (cases "parse E (Elem t) (pointee t v) text topLevel")
    with less.prems(2) True nodec have eq: "x = VPtr (Some y)" "r = r'"
      by (simp_all add: parse_Pointer)
    have smaller: "size (Elem t) < size t" using True by (simp add: size_Elem)
    from sub_parse eq have sub_parse': "parse E (Elem t) (pointee t v) text topLevel = (y, r)"
      by simp
    have "y = allocated E (Elem t) (pointee t v)"
      by (rule less.IH [OF smaller sub sub_parse' less.prems(3)])
    with eq True nodec show ?thesis
      by (simp add: allocated.simps [of E t])
  qed
qed

section \<open>The destination after a conversion\<close>

text \<open>
  C1, as amended. The claim says that a failed conversion never changes the destination,
  whatever its type. For a destination of pointer type this fails: the engine gives every
  nil pointer it follows fresh storage before it parses. What holds, when no custom decoder
  ends the call: after a conversion that did not succeed, the variable holds what the
  pointer loop alone leaves there (every nil pointer followed now refers to a zero value,
  nothing else has changed), and a variable whose type is not a pointer is unchanged, so a
  partly built slice or map is never assigned.
\<close>

theorem failed_conversion_only_allocates:
  assumes "reached E (PointerTo (dstType g)) \<noteq> None"
    and "Parse_value E g text s = (s', r)"
    and "r \<noteq> Done"
  shows "s' = s(dst g := allocated E (dstType g) (s (dst g)))
         \<and> (Kind (dstType g) \<noteq> Pointer \<longrightarrow> s' = s)"
proof -
  let ?t = "PointerTo (dstType g)"
  let ?v = "VPtr (Some (s (dst g)))"
  obtain x where p: "parse E ?t ?v text True = (x, r)"
    and s': "s' = s(dst g := pointee ?t x)"
    using assms(2) by (auto simp: Parse_value_def split: prod.splits)
  from assms(1) have nodec: "TextUnmarshaler E ?t = None" "BinaryUnmarshaler E ?t = None"
    by (auto simp: reached.simps [of E ?t] split: if_splits)
  from parse_failure_allocated [OF assms(1) p assms(3)]
  have "x = allocated E ?t ?v" .
  with nodec have "pointee ?t x = allocated E (dstType g) (s (dst g))"
    by (simp add: allocated.simps [of E ?t] pointee_def)
  with s' have first: "s' = s(dst g := allocated E (dstType g) (s (dst g)))" by simp
  moreover have "Kind (dstType g) \<noteq> Pointer \<longrightarrow> s' = s"
    using first by (simp add: allocated.simps [of E "dstType g"])
  ultimately show ?thesis by simp
qed

text \<open>The witness: the text \<open>1,x\<close> for a variable of type \<open>[]int\<close> that holds \<open>[7]\<close>. The
  second item does not convert, and the variable keeps its value.\<close>

theorem failed_conversion_only_allocates_witness:
  "snd (Parse_value exampleEnv \<lparr>dst = 0, dstType = SliceOf (Basic KInt)\<rparr> ''1,x'' sliceStore)
     = Fails (syntaxError ''ParseInt'' ''x'')
   \<and> fst (Parse_value exampleEnv \<lparr>dst = 0, dstType = SliceOf (Basic KInt)\<rparr> ''1,x'' sliceStore)
     = sliceStore"
proof -
  let ?g = "\<lparr>dst = 0, dstType = SliceOf (Basic KInt)\<rparr>"
  let ?res = "Parse_value exampleEnv ?g ''1,x'' sliceStore"
  have r: "snd ?res = Fails (syntaxError ''ParseInt'' ''x'')"
    by (simp add: Parse_value_def parse_cases TrimSpace_eval example_eval sliceStore_def
             split: prod.splits)
  have reach: "reached exampleEnv (PointerTo (dstType ?g)) \<noteq> None"
    by (simp add: reached.simps exampleEnv_def)
  have pair: "?res = (fst ?res, snd ?res)" by simp
  have failed: "snd ?res \<noteq> Done" using r by simp
  from failed_conversion_only_allocates [OF reach pair failed, THEN conjunct2]
  have "fst ?res = sliceStore" by simp
  with r show ?thesis by simp
qed

text \<open>The counterexample to C1 as stated: a variable of type \<open>*int\<close> that is nil and the
  text \<open>x\<close>. The conversion fails, and the variable now points to a zero.\<close>

theorem failed_conversion_allocates_nil_pointer:
  "snd (Parse_value exampleEnv \<lparr>dst = 0, dstType = PointerTo (Basic KInt)\<rparr> ''x'' emptyStore)
     = Fails (syntaxError ''ParseInt'' ''x'')
   \<and> emptyStore 0 = VPtr None
   \<and> fst (Parse_value exampleEnv \<lparr>dst = 0, dstType = PointerTo (Basic KInt)\<rparr> ''x'' emptyStore) 0
     = VPtr (Some (VInt 0))"
  by (simp add: Parse_value_def parse_cases example_eval emptyStore_def)

text \<open>
  C2: for a map, the engine returns without an error when the trimmed text is empty, but it
  returns before it assigns anything, so the destination keeps what it held: a variable
  of type \<open>map[string]int\<close> that holds \<open>{x: 1}\<close> still holds it after the text \<open>""\<close> has been
  converted, where the claim promises an empty map (and where a slice is given an empty
  slice).
\<close>

theorem empty_text_leaves_map_untouched:
  "snd (Parse_value exampleEnv \<lparr>dst = 0, dstType = MapOf (Basic KString) (Basic KInt)\<rparr> [] mapStore)
     = Done
   \<and> fst (Parse_value exampleEnv \<lparr>dst = 0, dstType = MapOf (Basic KString) (Basic KInt)\<rparr> [] mapStore) 0
     = VMap (Some [(VString ''x'', VInt 1)])
   \<and> snd (Parse_value exampleEnv \<lparr>dst = 0, dstType = SliceOf (Basic KInt)\<rparr> [] sliceStore)
     = Done
   \<and> fst (Parse_value exampleEnv \<lparr>dst = 0, dstType = SliceOf (Basic KInt)\<rparr> [] sliceStore) 0
     = VSlice (Some [])"
  by (simp add: Parse_value_def parse_cases TrimSpace_Nil example_eval mapStore_def
        sliceStore_def)

section \<open>Nesting and custom decoders\<close>





text \<open>
  C9. In the pointer loop, once a nil pointer has been given storage, a pointer whose type
  has a custom text decoder is handed to it with the raw text, and what the decoder
  returns is the result of the conversion, whatever the type pointed to; a binary decoder
  is used in the same way when there is no text decoder, so the text decoder wins when a
  type has both.
\<close>

theorem custom_decoder_short_circuits:
  assumes "Kind t = Pointer"
  shows "(TextUnmarshaler E t = Some unmarshaler \<longrightarrow>
            parse E t v text topLevel
              = (VPtr (Some (fst (unmarshaler text (pointee t v)))),
                 snd (unmarshaler text (pointee t v))))
       \<and> (TextUnmarshaler E t = None \<and> BinaryUnmarshaler E t = Some unmarshaler \<longrightarrow>
            parse E t v text topLevel
              = (VPtr (Some (fst (unmarshaler text (pointee t v)))),
                 snd (unmarshaler text (pointee t v))))
       \<and> pointee t (VPtr None) = Zero (Elem t)
       \<and> pointee t (VPtr (Some x)) = x"
  using assms by (simp add: parse_Pointer pointee_def split: prod.splits)

text \<open>The witness: a nil \<open>*Both\<close> is decoded by its text decoder although its binary decoder
  would reject the text, and a \<open>*Binary\<close>, whose underlying type is a slice, is decoded by
  its binary decoder even where a slice is not allowed.\<close>

theorem custom_decoder_short_circuits_witness:
  "parse decoderEnv (PointerTo (Named ''main'' ''Both'' (Opaque ''struct {}''))) (VPtr None) ''a,b'' True
     = (VPtr (Some (VOpaque ''text:a,b'')), Done)
   \<and> parse decoderEnv (PointerTo (Named ''main'' ''Binary'' (SliceOf (Basic KString)))) (VPtr None)
        ''a,b'' False
     = (VPtr (Some (VOpaque ''binary:a,b'')), Done)"
  using custom_decoder_short_circuits [of "PointerTo (Named ''main'' ''Both'' (Opaque ''struct {}''))"
      decoderEnv "keepText ''text:''" "VPtr None" "''a,b''" True]
    custom_decoder_short_circuits [of "PointerTo (Named ''main'' ''Binary'' (SliceOf (Basic KString)))"
      decoderEnv "keepText ''binary:''" "VPtr None" "''a,b''" False]
  by (simp add: decoderEnv_def exampleEnv_def keepText_def)

section \<open>Slices\<close>

lemma parseItems_all_Done:
  "(\<forall>subtext \<in> set items. snd (conv subtext) = Done) \<Longrightarrow>
   parseItems conv items = Inr (map (\<lambda>subtext. fst (conv subtext)) items)"
  by (induction items) (auto split: prod.splits outcome.splits)

lemma parseItems_first_failure:
  "(\<forall>subtext \<in> set pre. snd (conv subtext) = Done) \<Longrightarrow> snd (conv bad) \<noteq> Done \<Longrightarrow>
   parseItems conv (pre @ bad # post) = Inl (snd (conv bad))"
  by (induction pre) (auto split: prod.splits outcome.splits)

text \<open>
  What the engine does for a top-level slice whose element type is not of kind \<open>uint8\<close>, or
  is \<open>uint8\<close> itself: the bytes of the text for \<open>[]byte\<close>, an empty slice for a blank text,
  and otherwise the converted items of the text in their order, or, at the first item
  that does not convert, that item's outcome and the destination as it was.
\<close>

lemma slice_conversion:
  assumes "Kind t = Slice"
  shows "(Elem t = Basic KUint8 \<longrightarrow>
            parse E t v text True = (VSlice (Some (map (\<lambda>c. VUint (of_char c)) text)), Done))
       \<and> (Kind (Elem t) \<noteq> Scalar KUint8 \<and> TrimSpace text = [] \<longrightarrow>
            parse E t v text True = (VSlice (Some []), Done))
       \<and> (Kind (Elem t) \<noteq> Scalar KUint8 \<and> TrimSpace text \<noteq> []
            \<and> (\<forall>subtext \<in> set (Split text (CHR '','')).
                  snd (parse E (Elem t) (Zero (Elem t)) subtext False) = Done) \<longrightarrow>
            parse E t v text True
              = (VSlice (Some (map (\<lambda>subtext. fst (parse E (Elem t) (Zero (Elem t)) subtext False))
                   (Split text (CHR '','')))), Done))
       \<and> (Kind (Elem t) \<noteq> Scalar KUint8 \<and> TrimSpace text \<noteq> []
            \<and> Split text (CHR '','') = pre @ bad # post
            \<and> (\<forall>subtext \<in> set pre. snd (parse E (Elem t) (Zero (Elem t)) subtext False) = Done)
            \<and> snd (parse E (Elem t) (Zero (Elem t)) bad False) \<noteq> Done \<longrightarrow>
            parse E t v text True = (v, snd (parse E (Elem t) (Zero (Elem t)) bad False)))"
  using assms
  by (simp add: parse_Slice
        parseItems_all_Done [of _ "\<lambda>subtext. parse E (Elem t) (Zero (Elem t)) subtext False"]
        parseItems_first_failure [of _ "\<lambda>subtext. parse E (Elem t) (Zero (Elem t)) subtext False"])

lemma slice_of_strings:
  "parse E (SliceOf (Basic KString)) v ''a,b,c'' True
     = (VSlice (Some [VString ''a'', VString ''b'', VString ''c'']), Done)"
  by (simp add: parse_cases TrimSpace_eval)

text \<open>
  C6: the claim holds for the slices whose element type is \<open>byte\<close> or is not of kind
  \<open>uint8\<close> (\<open>slice_conversion\<close> and \<open>slice_of_strings\<close> above). For an element type that is a
  defined type of kind \<open>uint8\<close>, such as \<open>type MyByte uint8\<close>, the engine takes the byte
  branch and calls \<open>v.Set\<close> with a \<open>[]byte\<close>, which is not assignable to \<open>[]MyByte\<close>: the call
  panics, for the text \<open>abc\<close> and for the empty text alike, and \<open>Parse\<close> reports the fault
  as the error of the field.
\<close>

theorem named_byte_slice_panics:
  "parse exampleEnv (SliceOf (Named ''main'' ''MyByte'' (Basic KUint8))) (VSlice None) ''abc'' True
     = (VSlice None,
        Panics (NotAssignable (SliceOf (Basic KUint8))
                  (SliceOf (Named ''main'' ''MyByte'' (Basic KUint8)))))
   \<and> parse exampleEnv (SliceOf (Named ''main'' ''MyByte'' (Basic KUint8))) (VSlice None) [] True
     = (VSlice None,
        Panics (NotAssignable (SliceOf (Basic KUint8))
                  (SliceOf (Named ''main'' ''MyByte'' (Basic KUint8)))))
   \<and> Error exampleTypeString
        (Recovered (NotAssignable (SliceOf (Basic KUint8))
                      (SliceOf (Named ''main'' ''MyByte'' (Basic KUint8)))))
     = ''reflect.Set: value of type []uint8 is not assignable to type []main.MyByte''"
  by (simp add: parse_cases)

section \<open>Maps\<close>







section \<open>The parse pass\<close>

lemmas registry_eval =
  Var_def MakeParser_def joinLookupFuncs_def tableLookup_def constLookup_def faultyLookup_def
  echoLookup_def noEnv_def zeroOptions_def Required_def NonEmpty_def SkipEmpty_def Default_def
  Set_value_def

text \<open>
  C3. For a registered field the parse pass runs \<open>parseField\<close> and recovers its faults.
  When the source finds an empty text, the field fails with the empty-value error if
  \<open>nonEmpty\<close> is set, else is skipped with the store unchanged if \<open>skipEmpty\<close> is set, else
  the empty text is converted. When the source finds a text that is not empty, it is
  converted. When the source finds nothing, the field fails with the missing-required
  error if \<open>required\<close> is set, else the fallback, if there is one, is assigned to the
  destination, else the store is unchanged; in both cases the field succeeds.
\<close>

theorem presence_policy:
  "(fields' parser name = Some field \<longrightarrow>
      parseFields E parser (name # names) s errs
        = (case recovered (parseField E parser name field s) of
             (s', None) \<Rightarrow> parseFields E parser names s' errs
           | (s', Some err) \<Rightarrow> parseFields E parser names s' (errs @ [FieldError name err])))
   \<and> (lookup parser name = Returns ([], True) \<and> nonEmpty (opts field) \<longrightarrow>
        recovered (parseField E parser name field s) = (s, Some ErrEmpty))
   \<and> (lookup parser name = Returns ([], True) \<and> \<not> nonEmpty (opts field) \<and> skipEmpty (opts field) \<longrightarrow>
        recovered (parseField E parser name field s) = (s, None))
   \<and> (lookup parser name = Returns ([], True) \<and> \<not> nonEmpty (opts field) \<and> \<not> skipEmpty (opts field) \<longrightarrow>
        parseField E parser name field s = Parse_value E (fvalue field) [] s)
   \<and> (lookup parser name = Returns (text, True) \<and> text \<noteq> [] \<longrightarrow>
        parseField E parser name field s = Parse_value E (fvalue field) text s)
   \<and> (lookup parser name = Returns (text, False) \<and> required (opts field) \<longrightarrow>
        recovered (parseField E parser name field s) = (s, Some ErrRequired))
   \<and> (lookup parser name = Returns (text, False) \<and> \<not> required (opts field)
        \<and> fallback (opts field) = Some value \<longrightarrow>
        recovered (parseField E parser name field s) = (s(dst (fvalue field) := value), None))
   \<and> (lookup parser name = Returns (text, False) \<and> \<not> required (opts field)
        \<and> fallback (opts field) = None \<longrightarrow>
        recovered (parseField E parser name field s) = (s, None))
   \<and> Error typeString ErrEmpty = ''field is declared but empty: cannot be empty''
   \<and> Error typeString ErrRequired = ''field is required''"
  by (simp add: parseField_def Set_value_def)

text \<open>The witness: the fields of \<open>TestOptions\<close>. \<open>nonEmpty\<close> is found empty and fails,
  \<open>required\<close> is not found and fails, \<open>skipEmpty\<close> is found empty and is skipped,
  \<open>emptynonpresent\<close> is not found and succeeds, and \<open>port\<close> is not found and is given its
  default.\<close>

theorem presence_policy_witness:
  "recovered (parseField exampleEnv optionsParser ''nonEmpty''
       (the (fields' optionsParser ''nonEmpty'')) emptyStore) = (emptyStore, Some ErrEmpty)
   \<and> recovered (parseField exampleEnv optionsParser ''required''
       (the (fields' optionsParser ''required'')) emptyStore) = (emptyStore, Some ErrRequired)
   \<and> recovered (parseField exampleEnv optionsParser ''skipEmpty''
       (the (fields' optionsParser ''skipEmpty'')) emptyStore) = (emptyStore, None)
   \<and> recovered (parseField exampleEnv optionsParser ''emptynonpresent''
       (the (fields' optionsParser ''emptynonpresent'')) emptyStore) = (emptyStore, None)
   \<and> recovered (parseField exampleEnv optionsParser ''port''
       (the (fields' optionsParser ''port'')) emptyStore) = (emptyStore(4 := VInt 8080), None)"
  using presence_policy [of optionsParser "''nonEmpty''" "the (fields' optionsParser ''nonEmpty'')"
      exampleEnv _ emptyStore _ "[]"]
    presence_policy [of optionsParser "''required''" "the (fields' optionsParser ''required'')"
      exampleEnv _ emptyStore _ "[]"]
    presence_policy [of optionsParser "''skipEmpty''" "the (fields' optionsParser ''skipEmpty'')"
      exampleEnv _ emptyStore _ "[]"]
    presence_policy [of optionsParser "''emptynonpresent''"
      "the (fields' optionsParser ''emptynonpresent'')" exampleEnv _ emptyStore _ "[]"]
    presence_policy [of optionsParser "''port''" "the (fields' optionsParser ''port'')"
      exampleEnv _ emptyStore _ "[]" "VInt 8080"]
  by (simp add: optionsParser_def registry_eval)

lemma parseFields_append:
  "parseFields E parser (xs @ ys) s errs
     = (case parseFields E parser xs s errs of (s', errs') \<Rightarrow> parseFields E parser ys s' errs')"
  by (induction xs arbitrary: s errs) (auto split: option.splits prod.splits)

text \<open>
  C5. A fault of the source or of the converter is the outcome of the field's function
  literal; the deferred function turns it into the error of that field, whose message is
  what \<open>%v\<close> prints for the fault, and the loop goes on: the fields visited before have
  been processed, the field at fault contributes its error, and the fields that follow are
  processed from the store the field left, exactly as after any other field.
\<close>

theorem fault_becomes_field_error:
  "(lookup parser name = Raises p \<longrightarrow> parseField E parser name field s = (s, Panics p))
   \<and> (lookup parser name = Returns (text, True)
        \<and> (text \<noteq> [] \<or> (\<not> nonEmpty (opts field) \<and> \<not> skipEmpty (opts field)))
        \<and> Parse_value E (fvalue field) text s = (s', Panics p) \<longrightarrow>
        parseField E parser name field s = (s', Panics p))
   \<and> recovered (s', Panics p) = (s', Some (Recovered p))
   \<and> (fields' parser name = Some field
        \<and> parseFields E parser pre s errs = (s1, errs1)
        \<and> parseField E parser name field s1 = (s2, Panics p) \<longrightarrow>
        parseFields E parser (pre @ name # post) s errs
          = parseFields E parser post s2 (errs1 @ [FieldError name (Recovered p)]))
   \<and> Error typeString (FieldError name (Recovered (Fault m))) = name @ '': '' @ m"
  by (auto simp: parseField_def parseFields_append)

text \<open>The witness: the source panics for the field \<open>bad\<close>, which is visited first; the
  pass reports \<open>bad\<close> alone, and the field \<open>GOOD\<close> is converted.\<close>

theorem fault_becomes_field_error_witness:
  "parseFields exampleEnv faultParser [''bad'', ''GOOD''] emptyStore []
     = (emptyStore(0 := VString ''GOOD''),
        [FieldError ''bad'' (Recovered (Fault ''lookup key not capitalized''))])"
proof -
  have field: "fields' faultParser ''bad''
      = Some \<lparr>fvalue = \<lparr>dst = 1, dstType = Basic KString\<rparr>, opts = zeroOptions\<rparr>"
    by (simp add: faultParser_def registry_eval)
  have fault: "lookup faultParser ''bad'' = Raises (Fault ''lookup key not capitalized'')"
    by (simp add: faultParser_def registry_eval)
  have pre: "parseFields exampleEnv faultParser [] emptyStore [] = (emptyStore, [])"
    by simp
  from fault_becomes_field_error [where parser = faultParser and name = "''bad''"
      and p = "Fault ''lookup key not capitalized''" and E = exampleEnv and s = emptyStore,
      THEN conjunct1] fault
  have body: "parseField exampleEnv faultParser ''bad''
      \<lparr>fvalue = \<lparr>dst = 1, dstType = Basic KString\<rparr>, opts = zeroOptions\<rparr> emptyStore
      = (emptyStore, Panics (Fault ''lookup key not capitalized''))"
    by simp
  from fault_becomes_field_error [where parser = faultParser and name = "''bad''"
      and p = "Fault ''lookup key not capitalized''" and E = exampleEnv
      and field = "\<lparr>fvalue = \<lparr>dst = 1, dstType = Basic KString\<rparr>, opts = zeroOptions\<rparr>"
      and pre = "[]" and s = emptyStore and errs = "[]" and ?s1.0 = emptyStore
      and ?errs1.0 = "[]" and ?s2.0 = emptyStore and post = "[''GOOD'']"]
    field pre body
  have "parseFields exampleEnv faultParser ([] @ ''bad'' # [''GOOD'']) emptyStore []
      = parseFields exampleEnv faultParser [''GOOD''] emptyStore
          ([] @ [FieldError ''bad'' (Recovered (Fault ''lookup key not capitalized''))])"
    by simp
  then show ?thesis
    by (simp add: faultParser_def registry_eval parseField_def Parse_value_def parse_cases
          example_eval)
qed

section \<open>Lookup composition\<close>

lemma joinLoop_found:
  "(\<forall>fn \<in> set pre. \<exists>value. fn key = Returns (value, False)) \<Longrightarrow>
   fn key = Returns (value, True) \<Longrightarrow>
   joinLoop (pre @ fn # post) key res = Returns (value, True)"
  by (induction pre arbitrary: res) auto

lemma joinLoop_fault:
  "(\<forall>fn \<in> set pre. \<exists>value. fn key = Returns (value, False)) \<Longrightarrow>
   fn key = Raises p \<Longrightarrow>
   joinLoop (pre @ fn # post) key res = Raises p"
  by (induction pre arbitrary: res) auto

lemma joinLoop_not_found:
  "(\<forall>fn \<in> set fns. \<exists>value. fn key = Returns (value, False)) \<Longrightarrow>
   \<exists>value. joinLoop fns key (value0, False) = Returns (value, False)"
  by (induction fns arbitrary: value0) auto

lemma nonNil_filter: "nonNil funcs = map the (filter (\<lambda>fn. fn \<noteq> None) funcs)"
  by (induction funcs rule: nonNil.induct) auto

text \<open>
  C10. \<open>MakeParser\<close> keeps the functions that are not nil, in their order. With none left
  the parser looks names up in the process environment; otherwise its lookup is the
  composition of the functions kept, which asks them in order and returns the result of
  the first that finds the name (or passes on its fault), and reports not found when all
  of them do. The parser starts with no field.
\<close>

theorem lookup_composition:
  "nonNil funcs = map the (filter (\<lambda>fn. fn \<noteq> None) funcs)
   \<and> lookup (MakeParser LookupEnv funcs)
        = (if nonNil funcs = [] then LookupEnv else joinLookupFuncs (nonNil funcs))
   \<and> fields' (MakeParser LookupEnv funcs) = Map.empty
   \<and> ((\<forall>fn \<in> set pre. \<exists>value. fn key = Returns (value, False)) \<and> fn key = Returns (value, True) \<longrightarrow>
        joinLookupFuncs (pre @ fn # post) key = Returns (value, True))
   \<and> ((\<forall>fn \<in> set pre. \<exists>value. fn key = Returns (value, False)) \<and> fn key = Raises p \<longrightarrow>
        joinLookupFuncs (pre @ fn # post) key = Raises p)
   \<and> ((\<forall>fn \<in> set fns. \<exists>value. fn key = Returns (value, False)) \<longrightarrow>
        (\<exists>value. joinLookupFuncs fns key = Returns (value, False)))"
  using nonNil_filter [of funcs] joinLoop_not_found [of fns key "[]"]
  by (simp add: MakeParser_def joinLookupFuncs_def joinLoop_found joinLoop_fault)

text \<open>The witness: of a nil function and two tables, the first table answers for \<open>MAX\<close>
  and the second for \<open>NAME\<close>, as in the test \<open>TestMultipleLookups\<close>; a parser made from
  a nil function alone uses the environment.\<close>

theorem lookup_composition_witness:
  "lookup (MakeParser noEnv
       [None, Some (tableLookup [(''MAX'', ''42'')]),
        Some (tableLookup [(''MAX'', ''10''), (''NAME'', ''bob'')])]) ''MAX''
     = Returns (''42'', True)
   \<and> lookup (MakeParser noEnv
       [None, Some (tableLookup [(''MAX'', ''42'')]),
        Some (tableLookup [(''MAX'', ''10''), (''NAME'', ''bob'')])]) ''NAME''
     = Returns (''bob'', True)
   \<and> lookup (MakeParser noEnv [None]) = noEnv"
  using lookup_composition [of "[None, Some (tableLookup [(''MAX'', ''42'')]),
        Some (tableLookup [(''MAX'', ''10''), (''NAME'', ''bob'')])]" noEnv
      "[]" "''MAX''" "tableLookup [(''MAX'', ''42'')]" "''42''"
      "[tableLookup [(''MAX'', ''10''), (''NAME'', ''bob'')]]"]
    lookup_composition [of "[None, Some (tableLookup [(''MAX'', ''42'')]),
        Some (tableLookup [(''MAX'', ''10''), (''NAME'', ''bob'')])]" noEnv
      "[tableLookup [(''MAX'', ''42'')]]" "''NAME''"
      "tableLookup [(''MAX'', ''10''), (''NAME'', ''bob'')]" "''bob''" "[]"]
    lookup_composition [of "[None]" noEnv]
  by (simp add: tableLookup_def)

section \<open>Aggregation of the errors\<close>








end
